theory Spec2Isabelle
  imports Main "HOL-Library.AList" "HOL-Library.Word"
begin

section \<open>Account monitor: data model\<close>

text \<open>
  The development follows \<^verbatim>\<open>internal/api/handlers/management/account_monitor.go\<close>:
  the Go handler \<^verbatim>\<open>GetAccountsMonitor\<close> and the JavaScript of the dashboard page
  (\<^verbatim>\<open>getAccountStatus\<close>, \<^verbatim>\<open>formatDuration\<close>, the filter of \<^verbatim>\<open>renderAccounts\<close>).

  A \<^verbatim>\<open>time.Time\<close> is modelled by its instant, counted in nanoseconds from the zero
  \<^verbatim>\<open>Time\<close> (January 1, year 1, 00:00:00 UTC). \<^verbatim>\<open>IsZero\<close> holds of that instant only and
  \<^verbatim>\<open>t.After(u)\<close> is the strict order of instants.
\<close>

type_synonym time = int

definition IsZero :: "time \<Rightarrow> bool" where
  "IsZero t = (t = 0)"

definition After :: "time \<Rightarrow> time \<Rightarrow> bool" where
  "After t u = (u < t)"

text \<open>
  A value of Go's \<^verbatim>\<open>interface{}\<close> as far as this file looks at one: it asks whether a
  metadata value is a string, and stores strings and an \<^verbatim>\<open>int\<close> in the error mapping.
\<close>

datatype any = AString string | AInt int | ABool bool | ANil

type_synonym metadata = "(string \<rightharpoonup> any) option"

text \<open>
  The fields of the registry's account record that the handler reads (the record type
  itself is declared by the account manager package). A nil map and a nil pointer are
  \<open>None\<close>. Go's \<^verbatim>\<open>int\<close> fields are only copied or compared with zero, so they are
  \<open>int\<close>; \<^verbatim>\<open>Index\<close> is a \<^verbatim>\<open>uint64\<close>.
\<close>

record QuotaState =
  Exceeded :: bool
  Reason :: string
  BackoffLevel :: int
  NextRecoverAt :: time

record Error =
  Code :: string
  Message :: string
  HTTPStatus :: int

record Auth =
  ID :: string
  Provider :: string
  Label :: string
  Status :: string
  StatusMessage :: string
  Disabled :: bool
  Unavailable :: bool
  Quota :: QuotaState
  NextRetryAfter :: time
  LastError :: "Error option"
  Metadata :: metadata
  CreatedAt :: time
  UpdatedAt :: time
  Index :: "64 word"

text \<open>
  The Go struct \<^verbatim>\<open>AccountStatus\<close>; its fields carry the prefix \<open>s_\<close> here, since the
  registry record has fields of the same names. The \<^verbatim>\<open>map[string]interface{}\<close> of
  \<^verbatim>\<open>LastError\<close> is an association list, \<open>None\<close> for the nil map.
\<close>

record AccountStatus =
  s_ID :: string
  s_Provider :: string
  s_Label :: string
  s_Email :: string
  s_Status :: string
  s_StatusMessage :: string
  s_Disabled :: bool
  s_Unavailable :: bool
  s_QuotaExceeded :: bool
  s_QuotaReason :: string
  s_NextRecoverAt :: "time option"
  s_NextRetryAt :: "time option"
  s_BackoffLevel :: int
  s_LastError :: "(string \<times> any) list option"
  s_LastRefresh :: "time option"
  s_CreatedAt :: time
  s_UpdatedAt :: time
  s_Index :: "64 word"

text \<open>
  \<^verbatim>\<open>AccountsMonitorResponse\<close>. The counters are Go \<^verbatim>\<open>int\<close>s that are incremented at
  most once per element of a slice, so they stay below the slice's length and never
  wrap: they are natural numbers here.
\<close>

record AccountsMonitorResponse =
  Timestamp :: time
  TotalCount :: nat
  ActiveCount :: nat
  ErrorCount :: nat
  CooldownCount :: nat
  Accounts :: "AccountStatus list"

section \<open>The server: projection, classification and counting\<close>

text \<open>
  Lines 67--114 of the handler: the projection of one registry record. The helper
  \<^verbatim>\<open>extractLastRefreshTimestamp\<close> lives in another file of the package and is a
  parameter; \<open>None\<close> is its \<^verbatim>\<open>ok = false\<close>.
\<close>

definition project :: "(metadata \<Rightarrow> time option) \<Rightarrow> Auth \<Rightarrow> AccountStatus" where
  "project extractLastRefreshTimestamp auth =
    (let status = \<lparr> s_ID = ID auth, s_Provider = Provider auth, s_Label = Label auth,
           s_Email = [], s_Status = Status auth, s_StatusMessage = StatusMessage auth,
           s_Disabled = Disabled auth, s_Unavailable = Unavailable auth,
           s_QuotaExceeded = Exceeded (Quota auth), s_QuotaReason = Reason (Quota auth),
           s_NextRecoverAt = None, s_NextRetryAt = None,
           s_BackoffLevel = BackoffLevel (Quota auth), s_LastError = None,
           s_LastRefresh = None, s_CreatedAt = CreatedAt auth,
           s_UpdatedAt = UpdatedAt auth, s_Index = Index auth \<rparr>;
         status = (case Metadata auth of
                     None \<Rightarrow> status
                   | Some md \<Rightarrow> (case md ''email'' of
                                  Some (AString email) \<Rightarrow> status\<lparr>s_Email := email\<rparr>
                                | _ \<Rightarrow> status));
         status = (if \<not> IsZero (NextRecoverAt (Quota auth))
                   then status\<lparr>s_NextRecoverAt := Some (NextRecoverAt (Quota auth))\<rparr>
                   else status);
         status = (if \<not> IsZero (NextRetryAfter auth)
                   then status\<lparr>s_NextRetryAt := Some (NextRetryAfter auth)\<rparr>
                   else status);
         status = (case extractLastRefreshTimestamp (Metadata auth) of
                     Some ts \<Rightarrow> status\<lparr>s_LastRefresh := Some ts\<rparr>
                   | None \<Rightarrow> status);
         status = (case LastError auth of
                     None \<Rightarrow> status
                   | Some e \<Rightarrow>
                       (let m = [(''code'', AString (Code e)), (''message'', AString (Message e))];
                            m = (if HTTPStatus e \<noteq> 0
                                 then AList.update ''http_status'' (AInt (HTTPStatus e)) m
                                 else m)
                        in status\<lparr>s_LastError := Some m\<rparr>))
     in status)"

text \<open>
  Lines 120--129: which counter an account goes to. The branch taken is the server's
  classification of the account; \<open>count\<close> is the increment each branch performs.
\<close>

datatype bucket = BDisabled | BCooldown | BError | BActive

definition classify :: "Auth \<Rightarrow> time \<Rightarrow> bucket" where
  "classify auth now =
    (if Disabled auth then BDisabled
     else if Exceeded (Quota auth) \<or>
             (Unavailable auth \<and> \<not> IsZero (NextRecoverAt (Quota auth)) \<and>
              After (NextRecoverAt (Quota auth)) now)
       then BCooldown
     else if Unavailable auth \<or> Status auth = ''error'' then BError
     else BActive)"

fun count :: "bucket \<Rightarrow> AccountsMonitorResponse \<Rightarrow> AccountsMonitorResponse" where
  "count BDisabled response = response"
| "count BCooldown response = response\<lparr>CooldownCount := CooldownCount response + 1\<rparr>"
| "count BError response = response\<lparr>ErrorCount := ErrorCount response + 1\<rparr>"
| "count BActive response = response\<lparr>ActiveCount := ActiveCount response + 1\<rparr>"

text \<open>The names the dashboard gives to the four states.\<close>

fun bucketName :: "bucket \<Rightarrow> string" where
  "bucketName BDisabled = ''disabled''"
| "bucketName BCooldown = ''cooldown''"
| "bucketName BError = ''error''"
| "bucketName BActive = ''active''"

text \<open>
  The loop of lines 62--130 over the slice that \<^verbatim>\<open>List()\<close> returned; a nil entry is
  \<open>None\<close>.
\<close>

fun monitorLoop ::
  "(metadata \<Rightarrow> time option) \<Rightarrow> time \<Rightarrow> Auth option list \<Rightarrow>
   AccountsMonitorResponse \<Rightarrow> AccountsMonitorResponse" where
  "monitorLoop ext now [] response = response"
| "monitorLoop ext now (None # auths) response = monitorLoop ext now auths response"
| "monitorLoop ext now (Some auth # auths) response =
     monitorLoop ext now auths
       (count (classify auth now)
          (response\<lparr>Accounts := Accounts response @ [project ext auth],
                    TotalCount := TotalCount response + 1\<rparr>))"

definition snapshot ::
  "(metadata \<Rightarrow> time option) \<Rightarrow> time \<Rightarrow> Auth option list \<Rightarrow> AccountsMonitorResponse" where
  "snapshot ext now auths =
     monitorLoop ext now auths
       \<lparr>Timestamp = now, TotalCount = 0, ActiveCount = 0, ErrorCount = 0,
        CooldownCount = 0, Accounts = []\<rparr>"

text \<open>
  The handler itself. A nil \<^verbatim>\<open>*Handler\<close> and a nil \<^verbatim>\<open>authManager\<close> are \<open>None\<close>; the
  manager is the list its \<^verbatim>\<open>List()\<close> returns. The handler's effects are written out as
  the sequence of events it performs: the call of \<^verbatim>\<open>List()\<close>, the reading of the clock
  (whose answer is the argument \<open>now\<close>) and the one \<^verbatim>\<open>c.JSON\<close>.
\<close>

record Manager =
  List :: "Auth option list"

record Handler =
  authManager :: "Manager option"

datatype body = ErrorBody string | SnapshotBody AccountsMonitorResponse

datatype event = ListCalled | ClockRead | JSON nat body

definition GetAccountsMonitor ::
  "(metadata \<Rightarrow> time option) \<Rightarrow> Handler option \<Rightarrow> time \<Rightarrow> event list" where
  "GetAccountsMonitor ext h now =
    (case h of
       None \<Rightarrow> [JSON 500 (ErrorBody ''handler not initialized'')]
     | Some handler \<Rightarrow>
        (case authManager handler of
           None \<Rightarrow> [JSON 503 (ErrorBody ''auth manager not available'')]
         | Some manager \<Rightarrow>
             [ListCalled, ClockRead, JSON 200 (SnapshotBody (snapshot ext now (List manager)))]))"

section \<open>The wire payload\<close>

text \<open>
  What \<^verbatim>\<open>c.JSON\<close> sends for one \<^verbatim>\<open>AccountStatus\<close> and the page's script reads back: the
  object under the struct's \<^verbatim>\<open>json\<close> tags (\<open>id_field\<close> is the key \<^verbatim>\<open>id\<close>). A key that
  is absent from the object is \<open>None\<close>. A field tagged \<^verbatim>\<open>omitempty\<close> is left out when it
  is the empty string, a nil pointer, or a nil or empty map; every other field is always
  sent.
\<close>

record WireAccount =
  id_field :: string
  provider :: string
  label :: string
  email :: "string option"
  status :: string
  status_message :: "string option"
  disabled :: bool
  unavailable :: bool
  quota_exceeded :: bool
  quota_reason :: "string option"
  next_recover_at :: "time option"
  next_retry_at :: "time option"
  backoff_level :: int
  last_error :: "(string \<times> any) list option"
  last_refresh :: "time option"
  created_at :: time
  updated_at :: time
  index_field :: "64 word"

definition omitemptyString :: "string \<Rightarrow> string option" where
  "omitemptyString s = (if s = [] then None else Some s)"

definition omitemptyMap :: "(string \<times> any) list option \<Rightarrow> (string \<times> any) list option" where
  "omitemptyMap m = (case m of None \<Rightarrow> None | Some kvs \<Rightarrow> if kvs = [] then None else Some kvs)"

definition marshal :: "AccountStatus \<Rightarrow> WireAccount" where
  "marshal s =
    \<lparr> id_field = s_ID s, provider = s_Provider s, label = s_Label s,
      email = omitemptyString (s_Email s), status = s_Status s,
      status_message = omitemptyString (s_StatusMessage s),
      disabled = s_Disabled s, unavailable = s_Unavailable s,
      quota_exceeded = s_QuotaExceeded s,
      quota_reason = omitemptyString (s_QuotaReason s),
      next_recover_at = s_NextRecoverAt s, next_retry_at = s_NextRetryAt s,
      backoff_level = s_BackoffLevel s, last_error = omitemptyMap (s_LastError s),
      last_refresh = s_LastRefresh s, created_at = s_CreatedAt s,
      updated_at = s_UpdatedAt s, index_field = s_Index s \<rparr>"

text \<open>The account as the client receives it.\<close>

definition wire :: "(metadata \<Rightarrow> time option) \<Rightarrow> Auth \<Rightarrow> WireAccount" where
  "wire ext auth = marshal (project ext auth)"

section \<open>The client: classification, formatting, filtering\<close>

text \<open>
  \<^verbatim>\<open>getAccountStatus\<close> of the page's script. \<^verbatim>\<open>account.next_recover_at\<close> is, when the key
  is present, a non-empty date string, hence truthy; when it is absent it is
  \<^verbatim>\<open>undefined\<close>, hence falsy.
\<close>

definition getAccountStatus :: "WireAccount \<Rightarrow> string" where
  "getAccountStatus account =
    (if disabled account then ''disabled''
     else if quota_exceeded account then ''cooldown''
     else if unavailable account \<and> next_recover_at account \<noteq> None then ''cooldown''
     else if unavailable account \<or> status account = ''error'' then ''error''
     else ''active'')"

text \<open>
  How JavaScript writes a non-negative whole number into a string: its decimal digits
  (below \<open>10\<^sup>2\<^sup>1\<close>, far above any quotient of a difference of two \<^verbatim>\<open>Date\<close> values).
\<close>

definition digitChar :: "nat \<Rightarrow> char" where
  "digitChar d = ''0123456789'' ! d"

fun decimal :: "nat \<Rightarrow> string" where
  "decimal n = (if n < 10 then [digitChar n] else decimal (n div 10) @ [digitChar (n mod 10)])"

declare decimal.simps [simp del]

definition numberToString :: "int \<Rightarrow> string" where
  "numberToString i = (if i < 0 then CHR ''-'' # decimal (nat (- i)) else decimal (nat i))"

text \<open>
  \<^verbatim>\<open>formatDuration\<close>. Its argument is the difference of two \<^verbatim>\<open>getTime()\<close> values, a whole
  number of milliseconds; \<^verbatim>\<open>Math.floor\<close> of a quotient is \<open>div\<close>.
\<close>

definition formatDuration :: "int \<Rightarrow> string" where
  "formatDuration ms =
    (if ms \<le> 0 then ''now''
     else let s = ms div 1000; m = s div 60; h = m div 60 in
       if h > 0 then numberToString h @ ''h '' @ numberToString (m mod 60) @ ''m''
       else if m > 0 then numberToString m @ ''m '' @ numberToString (s mod 60) @ ''s''
       else numberToString s @ ''s'')"

text \<open>
  \<^verbatim>\<open>String.prototype.toLowerCase\<close> and \<^verbatim>\<open>includes\<close> (\<open>includes_js\<close> here, the
  name being taken). A character is a code unit below 256: the letters with a lower-case partner there are A--Z and, in the Latin-1 range,
  U+00C0--U+00DE without the multiplication sign U+00D7; the partner is 32 further on.
\<close>

definition toLowerChar :: "char \<Rightarrow> char" where
  "toLowerChar c =
    (let n = (of_char c :: nat) in
     if (65 \<le> n \<and> n \<le> 90) \<or> (192 \<le> n \<and> n \<le> 222 \<and> n \<noteq> 215)
     then char_of (n + 32) else c)"

definition toLowerCase :: "string \<Rightarrow> string" where
  "toLowerCase s = map toLowerChar s"

fun includes_js :: "string \<Rightarrow> string \<Rightarrow> bool" where
  "includes_js [] q = (q = [])"
| "includes_js (c # cs) q = (take (length q) (c # cs) = q \<or> includes_js cs q)"

text \<open>
  The filter of \<^verbatim>\<open>renderAccounts\<close> (lines 452--459): the two arguments are the values of
  the two \<^verbatim>\<open>select\<close> elements; the empty string is falsy.
\<close>

definition keep :: "string \<Rightarrow> string \<Rightarrow> WireAccount \<Rightarrow> bool" where
  "keep providerFilter statusFilter a =
    (if providerFilter \<noteq> [] \<and> \<not> includes_js (toLowerCase (provider a)) providerFilter then False
     else if statusFilter \<noteq> [] \<and> getAccountStatus a \<noteq> statusFilter then False
     else True)"

definition filtered :: "string \<Rightarrow> string \<Rightarrow> WireAccount list \<Rightarrow> WireAccount list" where
  "filtered providerValue statusValue accounts =
    (let providerFilter = toLowerCase providerValue;
         statusFilter = statusValue
     in filter (keep providerFilter statusFilter) accounts)"

section \<open>Notions of the specification\<close>

text \<open>
  These three definitions follow the words of the specification, not the code; the
  theorems below compare the code with them.

  ``The largest two non-zero units among hours/minutes/seconds'': of the three units of a
  positive duration, those that are not zero, the first two of them, each written as its
  number and its letter, separated by a blank.
\<close>

fun joinWithSpace :: "string list \<Rightarrow> string" where
  "joinWithSpace [] = []"
| "joinWithSpace [x] = x"
| "joinWithSpace (x # y # ys) = x @ '' '' @ joinWithSpace (y # ys)"

definition spec_formatDuration :: "int \<Rightarrow> string" where
  "spec_formatDuration ms =
    (if ms \<le> 0 then ''now''
     else let s = ms div 1000;
              units = [(s div 3600, ''h''), (s div 60 mod 60, ''m''), (s mod 60, ''s'')];
              shown = take 2 (filter (\<lambda>(v, u). v \<noteq> 0) units)
          in joinWithSpace (map (\<lambda>(v, u). numberToString v @ u) shown))"

text \<open>
  ``A case-insensitive substring'': some stretch of the provider is the filter, letter
  for letter, up to the case of the letters. Which characters are one letter in two cases
  is written down here from the alphabet, not taken from the code: the capitals A to Z with
  the small letters a to z in the same order, and, among the code units up to 255, the
  Latin-1 capitals U+00C0 to U+00DE (the multiplication sign U+00D7 is no letter) with the
  code unit 32 places further on.
\<close>

definition spec_upper :: string where
  "spec_upper = ''ABCDEFGHIJKLMNOPQRSTUVWXYZ''"

definition spec_lower :: string where
  "spec_lower = ''abcdefghijklmnopqrstuvwxyz''"

definition spec_casePair :: "char \<Rightarrow> char \<Rightarrow> bool" where
  "spec_casePair u l =
    ((u, l) \<in> set (zip spec_upper spec_lower) \<or>
     (192 \<le> (of_char u :: nat) \<and> (of_char u :: nat) \<le> 222 \<and> (of_char u :: nat) \<noteq> 215 \<and>
      (of_char l :: nat) = of_char u + 32))"

definition spec_sameLetter :: "char \<Rightarrow> char \<Rightarrow> bool" where
  "spec_sameLetter c d = (c = d \<or> spec_casePair c d \<or> spec_casePair d c)"

definition spec_ciSubstring :: "string \<Rightarrow> string \<Rightarrow> bool" where
  "spec_ciSubstring f p =
    (\<exists>pre mid suf. p = pre @ mid @ suf \<and> list_all2 spec_sameLetter f mid)"

text \<open>``A populated sub-field'': a value that is neither empty nor zero.\<close>

fun spec_populated :: "any \<Rightarrow> bool" where
  "spec_populated (AString s) = (s \<noteq> [])"
| "spec_populated (AInt i) = (i \<noteq> 0)"
| "spec_populated (ABool b) = b"
| "spec_populated ANil = False"

text \<open>A nil entry is not disabled; an account is when its flag says so.\<close>

definition isDisabled :: "Auth option \<Rightarrow> bool" where
  "isDisabled x = (case x of None \<Rightarrow> False | Some a \<Rightarrow> Disabled a)"

text \<open>The answers the handler has written, in order.\<close>

definition responses :: "event list \<Rightarrow> (nat \<times> body) list" where
  "responses evs = concat (map (\<lambda>e. case e of JSON c b \<Rightarrow> [(c, b)] | _ \<Rightarrow> []) evs)"

section \<open>Sample data\<close>

text \<open>
  A registry record given by the fields the classification and the filters read, the
  others fixed, and a refresh-time helper that finds nothing. The samples below are built
  from them.
\<close>

definition sampleAuth ::
  "string \<Rightarrow> string \<Rightarrow> bool \<Rightarrow> bool \<Rightarrow> bool \<Rightarrow> time \<Rightarrow> Error option \<Rightarrow> Auth" where
  "sampleAuth p st dis unav exc recoverAt err =
     \<lparr> ID = ''auth-1'', Provider = p, Label = ''primary'', Status = st, StatusMessage = [],
       Disabled = dis, Unavailable = unav,
       Quota = \<lparr> Exceeded = exc, Reason = [], BackoffLevel = 0, NextRecoverAt = recoverAt \<rparr>,
       NextRetryAfter = 0, LastError = err, Metadata = None,
       CreatedAt = 1000000000, UpdatedAt = 2000000000, Index = 1 \<rparr>"

definition noLastRefresh :: "metadata \<Rightarrow> time option" where
  "noLastRefresh md = None"

text \<open>
  One disabled, one quota-exceeded, one unavailable with status \<^verbatim>\<open>error\<close> and one nominal
  account, with a nil entry among them.
\<close>

definition sampleRegistry :: "Auth option list" where
  "sampleRegistry =
     [Some (sampleAuth ''codex'' ''active'' True False False 0 None),
      None,
      Some (sampleAuth ''claude'' ''active'' False False True 0 None),
      Some (sampleAuth ''gemini'' ''error'' False True False 0 None),
      Some (sampleAuth ''codex'' ''active'' False False False 0 None)]"

text \<open>Providers \<^verbatim>\<open>codex\<close> and \<^verbatim>\<open>claude\<close>, each once active and once in cooldown.\<close>

definition sampleAccounts :: "WireAccount list" where
  "sampleAccounts =
     [wire noLastRefresh (sampleAuth ''codex'' ''active'' False False False 0 None),
      wire noLastRefresh (sampleAuth ''codex'' ''active'' False False True 0 None),
      wire noLastRefresh (sampleAuth ''claude'' ''active'' False False False 0 None),
      wire noLastRefresh (sampleAuth ''claude'' ''active'' False False True 0 None)]"

text \<open>Providers written in mixed case: two that contain \<^verbatim>\<open>cod\<close> and one that does not.\<close>

definition sampleMixedCase :: "WireAccount list" where
  "sampleMixedCase =
     [wire noLastRefresh (sampleAuth ''Codex'' ''active'' False False False 0 None),
      wire noLastRefresh (sampleAuth ''CLAUDE'' ''active'' False False False 0 None),
      wire noLastRefresh (sampleAuth ''gemini-CODE'' ''active'' False False True 0 None)]"

section \<open>Basic facts\<close>

lemma sampleAuth_fields:
  "Provider (sampleAuth p st dis unav exc t err) = p"
  "Status (sampleAuth p st dis unav exc t err) = st"
  "Disabled (sampleAuth p st dis unav exc t err) = dis"
  "Unavailable (sampleAuth p st dis unav exc t err) = unav"
  "Exceeded (Quota (sampleAuth p st dis unav exc t err)) = exc"
  "NextRecoverAt (Quota (sampleAuth p st dis unav exc t err)) = t"
  "NextRetryAfter (sampleAuth p st dis unav exc t err) = 0"
  "LastError (sampleAuth p st dis unav exc t err) = err"
  by (simp_all add: sampleAuth_def)

subsection \<open>The fields of the wire account\<close>

lemma wire_disabled: "disabled (wire ext a) = Disabled a"
  by (simp add: wire_def marshal_def project_def Let_def split: option.splits any.splits)

lemma wire_quota_exceeded: "quota_exceeded (wire ext a) = Exceeded (Quota a)"
  by (simp add: wire_def marshal_def project_def Let_def split: option.splits any.splits)

lemma wire_unavailable: "unavailable (wire ext a) = Unavailable a"
  by (simp add: wire_def marshal_def project_def Let_def split: option.splits any.splits)

lemma wire_status: "status (wire ext a) = Status a"
  by (simp add: wire_def marshal_def project_def Let_def split: option.splits any.splits)

lemma wire_provider: "provider (wire ext a) = Provider a"
  by (simp add: wire_def marshal_def project_def Let_def split: option.splits any.splits)

lemma wire_next_recover_at:
  "next_recover_at (wire ext a) =
     (if IsZero (NextRecoverAt (Quota a)) then None else Some (NextRecoverAt (Quota a)))"
  by (simp add: wire_def marshal_def project_def Let_def split: option.splits any.splits)

lemma wire_next_retry_at:
  "next_retry_at (wire ext a) =
     (if IsZero (NextRetryAfter a) then None else Some (NextRetryAfter a))"
  by (simp add: wire_def marshal_def project_def Let_def split: option.splits any.splits)

lemma wire_last_error:
  "last_error (wire ext a) =
     (case LastError a of
        None \<Rightarrow> None
      | Some e \<Rightarrow>
          Some ([(''code'', AString (Code e)), (''message'', AString (Message e))] @
                (if HTTPStatus e = 0 then [] else [(''http_status'', AInt (HTTPStatus e))])))"
  by (simp add: wire_def marshal_def project_def Let_def omitemptyMap_def
      split: option.splits any.splits)

text \<open>The client's classifier, read on the registry record behind the wire account.\<close>

lemma getAccountStatus_wire:
  "getAccountStatus (wire ext a) =
    (if Disabled a then ''disabled''
     else if Exceeded (Quota a) then ''cooldown''
     else if Unavailable a \<and> \<not> IsZero (NextRecoverAt (Quota a)) then ''cooldown''
     else if Unavailable a \<or> Status a = ''error'' then ''error''
     else ''active'')"
  by (simp add: getAccountStatus_def wire_disabled wire_quota_exceeded wire_unavailable
        wire_status wire_next_recover_at)

subsection \<open>The counting loop\<close>

text \<open>
  The branch and its increment together are the chain of lines 120--129, counter by
  counter.
\<close>

lemma count_classify_unfold:
  "count (classify auth now) response =
    (if Disabled auth then response
     else if Exceeded (Quota auth) \<or>
             (Unavailable auth \<and> \<not> IsZero (NextRecoverAt (Quota auth)) \<and>
              After (NextRecoverAt (Quota auth)) now)
       then response\<lparr>CooldownCount := CooldownCount response + 1\<rparr>
     else if Unavailable auth \<or> Status auth = ''error''
       then response\<lparr>ErrorCount := ErrorCount response + 1\<rparr>
     else response\<lparr>ActiveCount := ActiveCount response + 1\<rparr>)"
  by (simp add: classify_def)

lemma count_fields:
  "TotalCount (count b r) = TotalCount r"
  "Accounts (count b r) = Accounts r"
  "Timestamp (count b r) = Timestamp r"
  by (cases b; simp)+

lemma count_sum:
  "ActiveCount (count b r) + ErrorCount (count b r) + CooldownCount (count b r) =
   ActiveCount r + ErrorCount r + CooldownCount r + (if b = BDisabled then 0 else 1)"
  by (cases b) simp_all

lemma classify_disabled_iff: "classify a now = BDisabled \<longleftrightarrow> Disabled a"
  by (simp add: classify_def)

lemma monitorLoop_accounts:
  "Accounts (monitorLoop ext now auths r) =
   Accounts r @ map (project ext \<circ> the) (filter (\<lambda>x. x \<noteq> None) auths)"
proof (induction auths arbitrary: r)
  case Nil
  show ?case by simp
next
  case (Cons x auths)
  show ?case
  proof (cases x)
    case None
    with Cons show ?thesis by simp
  next
    case (Some a)
    with Cons show ?thesis by (simp add: count_fields)
  qed
qed

lemma monitorLoop_total:
  "TotalCount (monitorLoop ext now auths r) =
   TotalCount r + length (filter (\<lambda>x. x \<noteq> None) auths)"
proof (induction auths arbitrary: r)
  case Nil
  show ?case by simp
next
  case (Cons x auths)
  show ?case
  proof (cases x)
    case None
    with Cons show ?thesis by simp
  next
    case (Some a)
    with Cons show ?thesis by (simp add: count_fields)
  qed
qed

lemma monitorLoop_buckets:
  "ActiveCount (monitorLoop ext now auths r) + ErrorCount (monitorLoop ext now auths r) +
   CooldownCount (monitorLoop ext now auths r) + length (filter isDisabled auths) =
   ActiveCount r + ErrorCount r + CooldownCount r + length (filter (\<lambda>x. x \<noteq> None) auths)"
proof (induction auths arbitrary: r)
  case Nil
  show ?case by simp
next
  case (Cons x auths)
  show ?case
  proof (cases x)
    case None
    with Cons show ?thesis by (simp add: isDisabled_def)
  next
    case (Some a)
    let ?r = "count (classify a now)
                (r\<lparr>Accounts := Accounts r @ [project ext a], TotalCount := TotalCount r + 1\<rparr>)"
    have step: "ActiveCount ?r + ErrorCount ?r + CooldownCount ?r =
                ActiveCount r + ErrorCount r + CooldownCount r + (if Disabled a then 0 else 1)"
      by (simp add: count_sum classify_disabled_iff)
    from Cons [of ?r] Some step show ?thesis
      by (simp add: isDisabled_def)
  qed
qed

lemma monitorLoop_skips_nil:
  "monitorLoop ext now (filter (\<lambda>x. x \<noteq> None) auths) r = monitorLoop ext now auths r"
proof (induction auths arbitrary: r)
  case Nil
  show ?case by simp
next
  case (Cons x auths)
  then show ?case by (cases x) simp_all
qed

section \<open>Client and server classification\<close>

text \<open>
  Where the recovery time of an account is unset or still ahead of \<open>now\<close>, the client's
  classifier and the server's counting agree. The client never compares the recovery time
  with a clock, so this is as far as the agreement goes.
\<close>

lemma client_server_agree:
  "IsZero (NextRecoverAt (Quota a)) \<or> After (NextRecoverAt (Quota a)) now \<Longrightarrow>
   getAccountStatus (wire ext a) = bucketName (classify a now)"
  by (auto simp add: getAccountStatus_wire classify_def)

text \<open>
  Claim C1 says that \<^verbatim>\<open>getAccountStatus\<close> on the wire payload gives, for every account and
  every time, the bucket the server counted the account in, both applying rule 3 with the
  comparison of \<^verbatim>\<open>nextRecoverAt\<close> against \<open>now\<close>. The code does not: an unavailable,
  enabled account whose quota is not exceeded and whose recovery time lies one second
  before \<open>now\<close> is counted by the server as an error (line 123 asks
  \<^verbatim>\<open>NextRecoverAt.After(now)\<close>), while the client, whose rule 3 only asks whether
  \<^verbatim>\<open>next_recover_at\<close> is present (line 435), calls it cooldown.
\<close>

theorem C1_client_server_disagree:
  "classify (sampleAuth ''codex'' ''active'' False True False 4000000000 None) 5000000000
     = BError \<and>
   count (classify (sampleAuth ''codex'' ''active'' False True False 4000000000 None) 5000000000) r
     = r\<lparr>ErrorCount := ErrorCount r + 1\<rparr> \<and>
   getAccountStatus (wire ext (sampleAuth ''codex'' ''active'' False True False 4000000000 None))
     = ''cooldown'' \<and>
   bucketName BError \<noteq> ''cooldown''"
  by (simp add: getAccountStatus_wire classify_def sampleAuth_fields IsZero_def After_def)

text \<open>
  Claim C3: an account that is not disabled, whose quota is not exceeded, that is
  unavailable and whose \<^verbatim>\<open>nextRecoverAt\<close> is at or before \<open>now\<close> is classified by the server
  as error, not cooldown: the error counter is the one incremented.
\<close>

theorem C3_recovered_is_error:
  assumes "\<not> Disabled a" and "\<not> Exceeded (Quota a)" and "Unavailable a"
    and "NextRecoverAt (Quota a) \<le> now"
  shows "classify a now = BError \<and> classify a now \<noteq> BCooldown \<and>
         count (classify a now) r = r\<lparr>ErrorCount := ErrorCount r + 1\<rparr>"
  using assms by (simp add: classify_def After_def)

text \<open>The account of the specification's example: recovery one second before \<open>now\<close>.\<close>

theorem C3_witness:
  "classify (sampleAuth ''codex'' ''active'' False True False 4000000000 None) 5000000000
     = BError"
  using C3_recovered_is_error
    [of "sampleAuth ''codex'' ''active'' False True False 4000000000 None" 5000000000]
  by (simp add: sampleAuth_fields)

text \<open>
  Claim C4: the classification follows the strict precedence disabled, cooldown, error,
  active, on the server and on the client. Each state is reached exactly when its own
  condition holds and no state before it in that order applies: disabled when the account
  is disabled; cooldown when it is not disabled and a cooldown condition holds, whatever
  the error conditions say; error when it is not disabled, no cooldown condition holds and
  an error condition does; active when none holds. The conditions are those each side
  tests: for cooldown, the exceeded quota or an unavailable account with a recovery time
  (on the server one that is set and after \<open>now\<close>, on the client one that is present); for
  error, an unavailable account or the status \<^verbatim>\<open>error\<close>. In particular a disabled account
  is disabled whatever its other fields say, and an account that is not disabled, whose
  quota is exceeded and whose status is \<^verbatim>\<open>error\<close> is in cooldown, not in error.
\<close>

theorem C4_precedence:
  fixes a :: Auth and now :: time and w :: WireAccount and ext :: "metadata \<Rightarrow> time option"
  defines "cooldownS \<equiv> Exceeded (Quota a) \<or>
             (Unavailable a \<and> \<not> IsZero (NextRecoverAt (Quota a)) \<and>
              After (NextRecoverAt (Quota a)) now)"
    and "errorS \<equiv> Unavailable a \<or> Status a = ''error''"
    and "cooldownC \<equiv> quota_exceeded w \<or> (unavailable w \<and> next_recover_at w \<noteq> None)"
    and "errorC \<equiv> unavailable w \<or> status w = ''error''"
  shows "(classify a now = BDisabled \<longleftrightarrow> Disabled a) \<and>
         (classify a now = BCooldown \<longleftrightarrow> \<not> Disabled a \<and> cooldownS) \<and>
         (classify a now = BError \<longleftrightarrow> \<not> Disabled a \<and> \<not> cooldownS \<and> errorS) \<and>
         (classify a now = BActive \<longleftrightarrow> \<not> Disabled a \<and> \<not> cooldownS \<and> \<not> errorS) \<and>
         (getAccountStatus w = ''disabled'' \<longleftrightarrow> disabled w) \<and>
         (getAccountStatus w = ''cooldown'' \<longleftrightarrow> \<not> disabled w \<and> cooldownC) \<and>
         (getAccountStatus w = ''error'' \<longleftrightarrow> \<not> disabled w \<and> \<not> cooldownC \<and> errorC) \<and>
         (getAccountStatus w = ''active'' \<longleftrightarrow> \<not> disabled w \<and> \<not> cooldownC \<and> \<not> errorC) \<and>
         (Disabled a \<longrightarrow>
            classify a now = BDisabled \<and> getAccountStatus (wire ext a) = ''disabled'') \<and>
         (\<not> Disabled a \<and> Exceeded (Quota a) \<and> Status a = ''error'' \<longrightarrow>
            classify a now = BCooldown \<and> getAccountStatus (wire ext a) = ''cooldown'')"
proof -
  have server:
    "(classify a now = BDisabled \<longleftrightarrow> Disabled a) \<and>
     (classify a now = BCooldown \<longleftrightarrow> \<not> Disabled a \<and> cooldownS) \<and>
     (classify a now = BError \<longleftrightarrow> \<not> Disabled a \<and> \<not> cooldownS \<and> errorS) \<and>
     (classify a now = BActive \<longleftrightarrow> \<not> Disabled a \<and> \<not> cooldownS \<and> \<not> errorS)"
    unfolding cooldownS_def errorS_def by (simp add: classify_def)
  have client:
    "(getAccountStatus w = ''disabled'' \<longleftrightarrow> disabled w) \<and>
     (getAccountStatus w = ''cooldown'' \<longleftrightarrow> \<not> disabled w \<and> cooldownC) \<and>
     (getAccountStatus w = ''error'' \<longleftrightarrow> \<not> disabled w \<and> \<not> cooldownC \<and> errorC) \<and>
     (getAccountStatus w = ''active'' \<longleftrightarrow> \<not> disabled w \<and> \<not> cooldownC \<and> \<not> errorC)"
    unfolding cooldownC_def errorC_def by (simp add: getAccountStatus_def)
  have both:
    "(Disabled a \<longrightarrow>
        classify a now = BDisabled \<and> getAccountStatus (wire ext a) = ''disabled'') \<and>
     (\<not> Disabled a \<and> Exceeded (Quota a) \<and> Status a = ''error'' \<longrightarrow>
        classify a now = BCooldown \<and> getAccountStatus (wire ext a) = ''cooldown'')"
    by (simp add: classify_def getAccountStatus_wire)
  from server client both show ?thesis by (intro conjI) (elim conjE, assumption)+
qed

text \<open>
  Five accounts with status \<^verbatim>\<open>error\<close> or \<^verbatim>\<open>active\<close> at time 7: disabled with every other
  flag set; enabled, unavailable and quota-exceeded (cooldown wins over both error
  conditions); unavailable with a recovery time ahead (cooldown again); status \<^verbatim>\<open>error\<close>
  alone (error wins over active); and a nominal one.
\<close>

theorem C4_witness:
  "classify (sampleAuth ''codex'' ''error'' True True True 0 None) 7 = BDisabled \<and>
   getAccountStatus (wire noLastRefresh (sampleAuth ''codex'' ''error'' True True True 0 None))
     = ''disabled'' \<and>
   classify (sampleAuth ''codex'' ''error'' False True True 0 None) 7 = BCooldown \<and>
   getAccountStatus (wire noLastRefresh (sampleAuth ''codex'' ''error'' False True True 0 None))
     = ''cooldown'' \<and>
   classify (sampleAuth ''codex'' ''error'' False True False 9 None) 7 = BCooldown \<and>
   getAccountStatus (wire noLastRefresh (sampleAuth ''codex'' ''error'' False True False 9 None))
     = ''cooldown'' \<and>
   classify (sampleAuth ''codex'' ''error'' False False False 0 None) 7 = BError \<and>
   getAccountStatus (wire noLastRefresh (sampleAuth ''codex'' ''error'' False False False 0 None))
     = ''error'' \<and>
   classify (sampleAuth ''codex'' ''active'' False False False 0 None) 7 = BActive \<and>
   getAccountStatus (wire noLastRefresh (sampleAuth ''codex'' ''active'' False False False 0 None))
     = ''active''"
  using
    C4_precedence [where a = "sampleAuth ''codex'' ''error'' True True True 0 None" and now = 7
      and ext = noLastRefresh
      and w = "wire noLastRefresh (sampleAuth ''codex'' ''error'' True True True 0 None)"]
    C4_precedence [where a = "sampleAuth ''codex'' ''error'' False True True 0 None" and now = 7
      and ext = noLastRefresh
      and w = "wire noLastRefresh (sampleAuth ''codex'' ''error'' False True True 0 None)"]
    C4_precedence [where a = "sampleAuth ''codex'' ''error'' False True False 9 None" and now = 7
      and ext = noLastRefresh
      and w = "wire noLastRefresh (sampleAuth ''codex'' ''error'' False True False 9 None)"]
    C4_precedence [where a = "sampleAuth ''codex'' ''error'' False False False 0 None" and now = 7
      and ext = noLastRefresh
      and w = "wire noLastRefresh (sampleAuth ''codex'' ''error'' False False False 0 None)"]
    C4_precedence [where a = "sampleAuth ''codex'' ''active'' False False False 0 None" and now = 7
      and ext = noLastRefresh
      and w = "wire noLastRefresh (sampleAuth ''codex'' ''active'' False False False 0 None)"]
  by (simp add: sampleAuth_fields wire_disabled wire_quota_exceeded wire_unavailable wire_status
        wire_next_recover_at IsZero_def After_def)

section \<open>The snapshot\<close>

text \<open>
  Claim C2: in the snapshot of any registry list at any time, \<^verbatim>\<open>totalCount\<close> is the length
  of the snapshot's \<^verbatim>\<open>accounts\<close>; the three bucket counts add up to at most \<^verbatim>\<open>totalCount\<close>,
  and to exactly \<^verbatim>\<open>totalCount\<close> if and only if no account of the list is disabled. The
  three counts and the number of disabled accounts together are \<^verbatim>\<open>totalCount\<close>: a disabled
  account is counted in the total only, every other account in exactly one bucket.
\<close>

theorem C2_count_invariant:
  fixes ext now auths
  defines "snap \<equiv> snapshot ext now auths"
  shows "TotalCount snap = length (Accounts snap) \<and>
         ActiveCount snap + ErrorCount snap + CooldownCount snap \<le> TotalCount snap \<and>
         (ActiveCount snap + ErrorCount snap + CooldownCount snap = TotalCount snap
            \<longleftrightarrow> \<not> (\<exists>a. Some a \<in> set auths \<and> Disabled a)) \<and>
         ActiveCount snap + ErrorCount snap + CooldownCount snap +
           length (filter isDisabled auths) = TotalCount snap"
proof -
  let ?init = "\<lparr>Timestamp = now, TotalCount = 0, ActiveCount = 0, ErrorCount = 0,
                CooldownCount = 0, Accounts = []\<rparr>"
  let ?n = "length (filter (\<lambda>x. x \<noteq> None) auths)"
  have total: "TotalCount snap = ?n"
    using monitorLoop_total [of ext now auths ?init] by (simp add: snap_def snapshot_def)
  have len: "length (Accounts snap) = ?n"
    using monitorLoop_accounts [of ext now auths ?init] by (simp add: snap_def snapshot_def)
  have sum: "ActiveCount snap + ErrorCount snap + CooldownCount snap +
             length (filter isDisabled auths) = ?n"
    using monitorLoop_buckets [of ext now auths ?init] by (simp add: snap_def snapshot_def)
  have none: "length (filter isDisabled auths) = 0 \<longleftrightarrow>
              \<not> (\<exists>a. Some a \<in> set auths \<and> Disabled a)"
    by (auto simp add: isDisabled_def filter_empty_conv split: option.splits)
  from total len sum none show ?thesis by auto
qed

text \<open>
  The four accounts of the specification's end-to-end example and a nil entry: total 4,
  one account in each bucket, the disabled one in none.
\<close>

theorem C2_witness:
  "TotalCount (snapshot noLastRefresh 7 sampleRegistry) = 4 \<and>
   length (Accounts (snapshot noLastRefresh 7 sampleRegistry)) = 4 \<and>
   ActiveCount (snapshot noLastRefresh 7 sampleRegistry) = 1 \<and>
   ErrorCount (snapshot noLastRefresh 7 sampleRegistry) = 1 \<and>
   CooldownCount (snapshot noLastRefresh 7 sampleRegistry) = 1 \<and>
   length (filter isDisabled sampleRegistry) = 1"
  using C2_count_invariant [of noLastRefresh 7 sampleRegistry]
  by (simp add: snapshot_def sampleRegistry_def classify_def sampleAuth_fields isDisabled_def
        IsZero_def After_def)

text \<open>
  Claim C6: the loop passes over the list once; the snapshot's accounts are the
  projections of the entries that are not nil, in the order of the list, one for each; and
  a list with nil entries gives the same snapshot, accounts and all four counts, as the
  list without them.
\<close>

theorem C6_order_and_nil:
  "snapshot ext now auths = snapshot ext now (filter (\<lambda>x. x \<noteq> None) auths) \<and>
   Accounts (snapshot ext now auths) =
     map (project ext \<circ> the) (filter (\<lambda>x. x \<noteq> None) auths)"
  using monitorLoop_accounts [of ext now auths] monitorLoop_skips_nil [of ext now auths]
  by (simp add: snapshot_def)

theorem C6_witness:
  "snapshot noLastRefresh 7 sampleRegistry =
     snapshot noLastRefresh 7
       [Some (sampleAuth ''codex'' ''active'' True False False 0 None),
        Some (sampleAuth ''claude'' ''active'' False False True 0 None),
        Some (sampleAuth ''gemini'' ''error'' False True False 0 None),
        Some (sampleAuth ''codex'' ''active'' False False False 0 None)] \<and>
   Accounts (snapshot noLastRefresh 7 sampleRegistry) =
     [project noLastRefresh (sampleAuth ''codex'' ''active'' True False False 0 None),
      project noLastRefresh (sampleAuth ''claude'' ''active'' False False True 0 None),
      project noLastRefresh (sampleAuth ''gemini'' ''error'' False True False 0 None),
      project noLastRefresh (sampleAuth ''codex'' ''active'' False False False 0 None)]"
proof -
  have kept: "filter (\<lambda>x. x \<noteq> None) sampleRegistry =
       [Some (sampleAuth ''codex'' ''active'' True False False 0 None),
        Some (sampleAuth ''claude'' ''active'' False False True 0 None),
        Some (sampleAuth ''gemini'' ''error'' False True False 0 None),
        Some (sampleAuth ''codex'' ''active'' False False False 0 None)]"
    by (simp add: sampleRegistry_def)
  have projected: "map (project noLastRefresh \<circ> the)
       [Some (sampleAuth ''codex'' ''active'' True False False 0 None),
        Some (sampleAuth ''claude'' ''active'' False False True 0 None),
        Some (sampleAuth ''gemini'' ''error'' False True False 0 None),
        Some (sampleAuth ''codex'' ''active'' False False False 0 None)] =
       [project noLastRefresh (sampleAuth ''codex'' ''active'' True False False 0 None),
        project noLastRefresh (sampleAuth ''claude'' ''active'' False False True 0 None),
        project noLastRefresh (sampleAuth ''gemini'' ''error'' False True False 0 None),
        project noLastRefresh (sampleAuth ''codex'' ''active'' False False False 0 None)]"
    by simp
  show ?thesis
    by (rule C6_order_and_nil [of noLastRefresh 7 sampleRegistry, unfolded kept projected])
qed

section \<open>The handler's answers\<close>

text \<open>
  Claim C8: a nil handler answers 500 and a nil account registry answers 503, each with a
  short message, and in both cases the handler sends no snapshot and does not call the
  registry's \<^verbatim>\<open>List()\<close>; otherwise it answers 200 with the snapshot of the list.
\<close>

theorem C8_handler_status:
  "(h = None \<longrightarrow>
      responses (GetAccountsMonitor ext h now) =
        [(500, ErrorBody ''handler not initialized'')] \<and>
      ListCalled \<notin> set (GetAccountsMonitor ext h now)) \<and>
   (\<forall>handler. h = Some handler \<and> authManager handler = None \<longrightarrow>
      responses (GetAccountsMonitor ext h now) =
        [(503, ErrorBody ''auth manager not available'')] \<and>
      ListCalled \<notin> set (GetAccountsMonitor ext h now)) \<and>
   (\<forall>handler manager. h = Some handler \<and> authManager handler = Some manager \<longrightarrow>
      responses (GetAccountsMonitor ext h now) =
        [(200, SnapshotBody (snapshot ext now (List manager)))])"
  by (simp add: GetAccountsMonitor_def responses_def)

theorem C8_witness:
  "responses (GetAccountsMonitor noLastRefresh None 7) =
     [(500, ErrorBody ''handler not initialized'')] \<and>
   responses (GetAccountsMonitor noLastRefresh (Some \<lparr>authManager = None\<rparr>) 7) =
     [(503, ErrorBody ''auth manager not available'')] \<and>
   responses (GetAccountsMonitor noLastRefresh
                (Some \<lparr>authManager = Some \<lparr>List = []\<rparr>\<rparr>) 7) =
     [(200, SnapshotBody \<lparr>Timestamp = 7, TotalCount = 0, ActiveCount = 0, ErrorCount = 0,
        CooldownCount = 0, Accounts = []\<rparr>)]"
  using C8_handler_status [of None noLastRefresh 7]
    C8_handler_status [of "Some \<lparr>authManager = None\<rparr>" noLastRefresh 7]
    C8_handler_status [of "Some \<lparr>authManager = Some \<lparr>List = []\<rparr>\<rparr>" noLastRefresh 7]
  by (simp add: snapshot_def)

section \<open>Optional fields of the payload\<close>

text \<open>
  Claim C10: \<^verbatim>\<open>next_recover_at\<close> and \<^verbatim>\<open>next_retry_at\<close> are present in the payload exactly
  when the registry's \<^verbatim>\<open>Quota.NextRecoverAt\<close> and \<^verbatim>\<open>NextRetryAfter\<close> are not the zero time,
  and then carry that time; a zero time is always left out.
\<close>

theorem C10_timestamps_present_iff_nonzero:
  "next_recover_at (wire ext a) =
     (if IsZero (NextRecoverAt (Quota a)) then None else Some (NextRecoverAt (Quota a))) \<and>
   next_retry_at (wire ext a) =
     (if IsZero (NextRetryAfter a) then None else Some (NextRetryAfter a)) \<and>
   (next_recover_at (wire ext a) \<noteq> None \<longleftrightarrow> \<not> IsZero (NextRecoverAt (Quota a))) \<and>
   (next_retry_at (wire ext a) \<noteq> None \<longleftrightarrow> \<not> IsZero (NextRetryAfter a))"
  by (simp add: wire_next_recover_at wire_next_retry_at)

theorem C10_witness:
  "next_recover_at
     (wire noLastRefresh (sampleAuth ''codex'' ''active'' False True False 4000000000 None))
     = Some 4000000000 \<and>
   next_retry_at
     (wire noLastRefresh (sampleAuth ''codex'' ''active'' False True False 4000000000 None))
     = None \<and>
   next_recover_at
     (wire noLastRefresh
        ((sampleAuth ''codex'' ''active'' False False False 0 None)
           \<lparr>NextRetryAfter := 3000000000\<rparr>)) = None \<and>
   next_retry_at
     (wire noLastRefresh
        ((sampleAuth ''codex'' ''active'' False False False 0 None)
           \<lparr>NextRetryAfter := 3000000000\<rparr>)) = Some 3000000000"
  using C10_timestamps_present_iff_nonzero
      [of noLastRefresh "sampleAuth ''codex'' ''active'' False True False 4000000000 None"]
    C10_timestamps_present_iff_nonzero
      [of noLastRefresh "(sampleAuth ''codex'' ''active'' False False False 0 None)
           \<lparr>NextRetryAfter := 3000000000\<rparr>"]
  by (simp add: sampleAuth_fields IsZero_def)

text \<open>
  Claim C7 says that \<^verbatim>\<open>last_error\<close>, when present, holds populated sub-fields only, no key
  with an empty or zero value. The code writes the keys \<^verbatim>\<open>code\<close> and \<^verbatim>\<open>message\<close> whenever
  the record has an error (lines 107--110), whatever the two strings are: an error whose
  code and message are empty appears on the wire with both keys, each an empty string.
\<close>

theorem C7_counterexample:
  "last_error (wire noLastRefresh
      (sampleAuth ''codex'' ''error'' False True False 0
         (Some \<lparr>Code = [], Message = [], HTTPStatus = 0\<rparr>))) =
     Some [(''code'', AString []), (''message'', AString [])] \<and>
   \<not> spec_populated (AString [])"
  by (simp add: wire_last_error sampleAuth_fields)

text \<open>
  Claim C7, amended: \<^verbatim>\<open>last_error\<close> is left out when the record has no error. When it has
  one, \<^verbatim>\<open>last_error\<close> is a mapping that always holds \<^verbatim>\<open>code\<close> and \<^verbatim>\<open>message\<close> with the
  record's two strings, empty or not, that holds \<^verbatim>\<open>http_status\<close> exactly when the
  record's integer is not zero (so its value is never zero), and that has no other key.
\<close>

theorem C7_last_error_keys:
  "(LastError a = None \<longrightarrow> last_error (wire ext a) = None) \<and>
   (\<forall>e. LastError a = Some e \<longrightarrow>
      (\<exists>m. last_error (wire ext a) = Some m \<and>
           map_of m ''code'' = Some (AString (Code e)) \<and>
           map_of m ''message'' = Some (AString (Message e)) \<and>
           map_of m ''http_status'' =
             (if HTTPStatus e = 0 then None else Some (AInt (HTTPStatus e))) \<and>
           fst ` set m \<subseteq> {''code'', ''message'', ''http_status''} \<and>
           distinct (map fst m) \<and>
           (\<forall>v. map_of m ''http_status'' = Some v \<longrightarrow> spec_populated v)))"
  by (simp add: wire_last_error)

theorem C7_witness:
  "last_error (wire noLastRefresh (sampleAuth ''codex'' ''active'' False False False 0 None))
     = None \<and>
   (\<exists>m. last_error (wire noLastRefresh
            (sampleAuth ''codex'' ''error'' False True False 0
               (Some \<lparr>Code = ''rate_limit'', Message = ''slow down'', HTTPStatus = 429\<rparr>)))
          = Some m \<and>
        map_of m ''http_status'' = Some (AInt 429) \<and>
        map_of m ''code'' = Some (AString ''rate_limit''))"
  using C7_last_error_keys
      [of "sampleAuth ''codex'' ''active'' False False False 0 None" noLastRefresh]
    C7_last_error_keys
      [of "sampleAuth ''codex'' ''error'' False True False 0
             (Some \<lparr>Code = ''rate_limit'', Message = ''slow down'', HTTPStatus = 429\<rparr>)"
          noLastRefresh]
  by (auto simp add: sampleAuth_fields)

section \<open>Formatting a duration\<close>

lemma formatDuration_examples:
  "formatDuration 65000 = ''1m 5s''"
  "formatDuration 3700000 = ''1h 1m''"
  "formatDuration 45000 = ''45s''"
  by (simp_all add: formatDuration_def numberToString_def decimal.simps digitChar_def Let_def)

lemma divmod_unit:
  fixes a r k :: int
  assumes "0 \<le> r" and "r < k"
  shows "(a * k + r) div k = a" and "(a * k + r) mod k = r"
  using assms by (simp_all add: div_pos_pos_trivial mod_pos_pos_trivial)

lemma split_units:
  fixes h m s r :: int
  assumes m: "0 \<le> m" "m < 60" and s: "0 \<le> s" "s < 60" and r: "0 \<le> r" "r < 1000"
    and ms: "ms = ((h * 60 + m) * 60 + s) * 1000 + r"
  shows "ms div 1000 = (h * 60 + m) * 60 + s"
    and "ms div 1000 div 60 = h * 60 + m"
    and "ms div 1000 mod 60 = s"
    and "ms div 1000 div 60 div 60 = h"
    and "ms div 1000 div 60 mod 60 = m"
proof -
  show a: "ms div 1000 = (h * 60 + m) * 60 + s"
    unfolding ms by (rule divmod_unit(1) [OF r])
  show b: "ms div 1000 div 60 = h * 60 + m"
    unfolding a by (rule divmod_unit(1) [OF s])
  show "ms div 1000 mod 60 = s"
    unfolding a by (rule divmod_unit(2) [OF s])
  show "ms div 1000 div 60 div 60 = h"
    unfolding b by (rule divmod_unit(1) [OF m])
  show "ms div 1000 div 60 mod 60 = m"
    unfolding b by (rule divmod_unit(2) [OF m])
qed

text \<open>
  Claim C5 says that \<^verbatim>\<open>formatDuration\<close> renders a positive duration as its largest two
  non-zero units, and a zero or negative one as \<^verbatim>\<open>now\<close>. The code prints the leading unit
  and the unit next to it whether or not that one is zero: one hour is \<^verbatim>\<open>1h 0m\<close>, where
  the largest non-zero units are the hour alone.
\<close>

theorem C5_counterexample:
  "formatDuration 3600000 = ''1h 0m'' \<and> spec_formatDuration 3600000 = ''1h'' \<and>
   formatDuration 3600000 \<noteq> spec_formatDuration 3600000"
  by (simp add: formatDuration_def spec_formatDuration_def numberToString_def decimal.simps
        digitChar_def Let_def)

text \<open>
  Claim C5, amended: a zero or negative duration yields \<^verbatim>\<open>now\<close>. A positive duration of
  \<open>h\<close> hours, \<open>m\<close> minutes, \<open>s\<close> seconds and \<open>r\<close> further milliseconds is rendered by its
  leading unit and the next smaller one, which is printed also when it is zero: hours and
  minutes from one hour on, else minutes and seconds from one minute on, else the seconds
  alone (\<^verbatim>\<open>0s\<close> below one second). So 65,000 ms is \<^verbatim>\<open>1m 5s\<close>, 3,700,000 ms is \<^verbatim>\<open>1h 1m\<close>
  and 45,000 ms is \<^verbatim>\<open>45s\<close>.
\<close>

theorem C5_formatDuration_leading_units:
  "(ms \<le> 0 \<longrightarrow> formatDuration ms = ''now'') \<and>
   (\<forall>h m s r. 0 < ms \<and> ms = ((h * 60 + m) * 60 + s) * 1000 + r \<and>
       0 \<le> m \<and> m < 60 \<and> 0 \<le> s \<and> s < 60 \<and> 0 \<le> r \<and> r < 1000 \<longrightarrow>
       formatDuration ms =
         (if 0 < h then numberToString h @ ''h '' @ numberToString m @ ''m''
          else if 0 < m then numberToString m @ ''m '' @ numberToString s @ ''s''
          else numberToString s @ ''s'')) \<and>
   formatDuration 65000 = ''1m 5s'' \<and>
   formatDuration 3700000 = ''1h 1m'' \<and>
   formatDuration 45000 = ''45s''"
proof (intro conjI allI impI)
  assume "ms \<le> 0"
  then show "formatDuration ms = ''now''" by (simp add: formatDuration_def)
next
  fix h m s r :: int
  assume a: "0 < ms \<and> ms = ((h * 60 + m) * 60 + s) * 1000 + r \<and>
       0 \<le> m \<and> m < 60 \<and> 0 \<le> s \<and> s < 60 \<and> 0 \<le> r \<and> r < 1000"
  then have u: "ms div 1000 = (h * 60 + m) * 60 + s" "ms div 1000 div 60 = h * 60 + m"
    "ms div 1000 mod 60 = s" "ms div 1000 div 60 div 60 = h" "ms div 1000 div 60 mod 60 = m"
    using split_units [of m s r ms h] by simp_all
  from a have pos: "\<not> ms \<le> 0" by simp
  define S where "S = ms div 1000"
  define M where "M = S div 60"
  define H where "H = M div 60"
  have fd: "formatDuration ms =
     (if 0 < H then numberToString H @ ''h '' @ numberToString (M mod 60) @ ''m''
      else if 0 < M then numberToString M @ ''m '' @ numberToString (S mod 60) @ ''s''
      else numberToString S @ ''s'')"
    using pos by (simp add: formatDuration_def Let_def S_def M_def H_def)
  have v: "M = h * 60 + m" "S mod 60 = s" "H = h" "M mod 60 = m" "S = M * 60 + s"
    using u by (simp_all add: S_def M_def H_def)
  from a have "0 \<le> H"
    by (simp add: S_def M_def H_def pos_imp_zdiv_nonneg_iff)
  then have h: "0 \<le> h" by (simp only: v(3))
  show "formatDuration ms =
         (if 0 < h then numberToString h @ ''h '' @ numberToString m @ ''m''
          else if 0 < m then numberToString m @ ''m '' @ numberToString s @ ''s''
          else numberToString s @ ''s'')"
  proof (cases "0 < h")
    case True
    then show ?thesis by (simp add: fd v(2,3,4))
  next
    case False
    with h have h0: "h = 0" by simp
    then have Mm: "M = m" by (simp add: v(1))
    show ?thesis
    proof (cases "0 < m")
      case True
      with h0 Mm show ?thesis by (simp add: fd v(2,3))
    next
      case False
      with a have "m = 0" by simp
      with Mm have "S = s" by (simp add: v(5))
      with h0 Mm \<open>m = 0\<close> show ?thesis by (simp add: fd v(3))
    qed
  qed
qed (simp_all add: formatDuration_examples)

theorem C5_witness:
  "formatDuration (- 5) = ''now'' \<and> formatDuration 3605250 = ''1h 0m'' \<and>
   formatDuration 60000 = ''1m 0s'' \<and> formatDuration 999 = ''0s''"
proof -
  have n: "numberToString 0 = ''0''" "numberToString 1 = ''1''"
    by (simp_all add: numberToString_def decimal.simps digitChar_def)
  have "formatDuration 3605250 = ''1h 0m''"
    using C5_formatDuration_leading_units [of 3605250, THEN conjunct2, THEN conjunct1,
        rule_format, of 1 0 5 250]
    by (simp add: n)
  moreover have "formatDuration 60000 = ''1m 0s''"
    using C5_formatDuration_leading_units [of 60000, THEN conjunct2, THEN conjunct1,
        rule_format, of 0 1 0 0]
    by (simp add: n)
  moreover have "formatDuration 999 = ''0s''"
    using C5_formatDuration_leading_units [of 999, THEN conjunct2, THEN conjunct1,
        rule_format, of 0 0 0 999]
    by (simp add: n)
  moreover have "formatDuration (- 5) = ''now''"
    using C5_formatDuration_leading_units [of "- 5"] by simp
  ultimately show ?thesis by simp
qed

section \<open>The client's filter\<close>

lemma take_length_eq_iff: "take (length q) s = q \<longleftrightarrow> (\<exists>suf. s = q @ suf)"
proof
  assume "take (length q) s = q"
  then have "s = q @ drop (length q) s" by (metis append_take_drop_id)
  then show "\<exists>suf. s = q @ suf" ..
next
  assume "\<exists>suf. s = q @ suf"
  then show "take (length q) s = q" by auto
qed

text \<open>\<^verbatim>\<open>includes\<close> finds its argument exactly when it occurs somewhere in the string.\<close>

lemma includes_js_iff: "includes_js s q \<longleftrightarrow> (\<exists>pre suf. s = pre @ q @ suf)"
proof (induction s)
  case Nil
  show ?case by simp
next
  case (Cons c cs)
  have "(\<exists>pre suf. c # cs = pre @ q @ suf) \<longleftrightarrow>
        (\<exists>suf. c # cs = q @ suf) \<or> (\<exists>pre suf. cs = pre @ q @ suf)"
  proof
    assume "\<exists>pre suf. c # cs = pre @ q @ suf"
    then obtain pre suf where eq: "c # cs = pre @ q @ suf" by blast
    show "(\<exists>suf. c # cs = q @ suf) \<or> (\<exists>pre suf. cs = pre @ q @ suf)"
    proof (cases pre)
      case Nil
      with eq show ?thesis by auto
    next
      case (Cons d pre')
      with eq have "cs = pre' @ q @ suf" by simp
      then show ?thesis by blast
    qed
  next
    assume "(\<exists>suf. c # cs = q @ suf) \<or> (\<exists>pre suf. cs = pre @ q @ suf)"
    then show "\<exists>pre suf. c # cs = pre @ q @ suf"
    proof
      assume "\<exists>suf. c # cs = q @ suf"
      then obtain suf where "c # cs = [] @ q @ suf" by auto
      then show ?thesis by blast
    next
      assume "\<exists>pre suf. cs = pre @ q @ suf"
      then obtain pre suf where "c # cs = (c # pre) @ q @ suf" by auto
      then show ?thesis by blast
    qed
  qed
  with Cons show ?case by (simp only: includes_js.simps take_length_eq_iff)
qed

text \<open>
  \<^verbatim>\<open>toLowerCase\<close> against the alphabet: two characters have the same lower-case form
  exactly when they are the same letter, in whatever case.
\<close>

lemma alphabet_pairs:
  "zip spec_upper spec_lower = map (\<lambda>k. (char_of k, char_of (k + 32))) [65..<91::nat]"
  unfolding spec_upper_def spec_lower_def by code_simp

lemma ascii_pair_iff:
  "(u, l) \<in> set (zip spec_upper spec_lower) \<longleftrightarrow>
     65 \<le> (of_char u :: nat) \<and> (of_char u :: nat) \<le> 90 \<and> (of_char l :: nat) = of_char u + 32"
proof
  assume "(u, l) \<in> set (zip spec_upper spec_lower)"
  then obtain k :: nat where k: "65 \<le> k" "k < 91" "u = char_of k" "l = char_of (k + 32)"
    unfolding alphabet_pairs by auto
  then show "65 \<le> (of_char u :: nat) \<and> (of_char u :: nat) \<le> 90 \<and>
             (of_char l :: nat) = of_char u + 32"
    by simp
next
  assume a: "65 \<le> (of_char u :: nat) \<and> (of_char u :: nat) \<le> 90 \<and>
             (of_char l :: nat) = of_char u + 32"
  define k :: nat where "k = of_char u"
  have "u = char_of k" "l = char_of (k + 32)"
    using a by (simp_all add: k_def flip: a [THEN conjunct2, THEN conjunct2])
  moreover have "k \<in> {65..<91}" using a by (simp add: k_def)
  ultimately show "(u, l) \<in> set (zip spec_upper spec_lower)"
    unfolding alphabet_pairs set_map set_upt by blast
qed

lemma of_char_toLowerChar:
  "(of_char (toLowerChar c) :: nat) =
     (if (65 \<le> (of_char c :: nat) \<and> (of_char c :: nat) \<le> 90) \<or>
         (192 \<le> (of_char c :: nat) \<and> (of_char c :: nat) \<le> 222 \<and> (of_char c :: nat) \<noteq> 215)
      then of_char c + 32 else of_char c)"
  by (simp add: toLowerChar_def Let_def)

lemma toLowerChar_eq_iff: "toLowerChar c = toLowerChar d \<longleftrightarrow> spec_sameLetter c d"
proof -
  have "toLowerChar c = toLowerChar d \<longleftrightarrow>
        (of_char (toLowerChar c) :: nat) = of_char (toLowerChar d)"
    by simp
  moreover have "c = d \<longleftrightarrow> (of_char c :: nat) = of_char d"
    by simp
  ultimately show ?thesis
    unfolding spec_sameLetter_def spec_casePair_def ascii_pair_iff of_char_toLowerChar
    by (simp only:) (auto split: if_splits)
qed

text \<open>
  So looking for the lower-cased filter in the lower-cased provider, as the code does, is
  looking for the filter in the provider up to case.
\<close>

lemma spec_ciSubstring_includes:
  "spec_ciSubstring f p \<longleftrightarrow> includes_js (toLowerCase p) (toLowerCase f)"
proof -
  have eq: "map toLowerChar mid = map toLowerChar f \<longleftrightarrow> list_all2 spec_sameLetter f mid"
    for mid
  proof -
    have "map toLowerChar f = map toLowerChar mid \<longleftrightarrow>
          list_all2 (\<lambda>x y. toLowerChar x = toLowerChar y) f mid"
      by (simp add: list.rel_map flip: list.rel_eq)
    then show ?thesis by (auto simp add: toLowerChar_eq_iff [abs_def])
  qed
  show ?thesis
    unfolding spec_ciSubstring_def includes_js_iff toLowerCase_def
    by (fastforce simp add: map_eq_append_conv append_eq_map_conv eq [symmetric])
qed

lemma toLowerCase_Nil_iff: "toLowerCase s = [] \<longleftrightarrow> s = []"
  by (simp add: toLowerCase_def)

lemma keep_iff:
  "keep (toLowerCase providerValue) statusValue a \<longleftrightarrow>
     (providerValue = [] \<or> spec_ciSubstring providerValue (provider a)) \<and>
     (statusValue = [] \<or> getAccountStatus a = statusValue)"
  by (auto simp add: keep_def spec_ciSubstring_includes toLowerCase_Nil_iff)

text \<open>
  Claim C9: the filter keeps, in their order, exactly the accounts that pass both
  filters: the provider filter, when not empty, passes an account if and only if the filter
  is a case-insensitive substring of its provider (some stretch of the provider is the
  filter up to the case of its letters); the status filter, when not empty, passes it if
  and only if \<^verbatim>\<open>getAccountStatus\<close> of the account is the filter value.
\<close>

theorem C9_filter_conjunction:
  "filtered providerValue statusValue accounts =
     filter (\<lambda>a. (providerValue = [] \<or> spec_ciSubstring providerValue (provider a)) \<and>
                 (statusValue = [] \<or> getAccountStatus a = statusValue)) accounts"
proof -
  have "keep (toLowerCase providerValue) statusValue =
        (\<lambda>a. (providerValue = [] \<or> spec_ciSubstring providerValue (provider a)) \<and>
             (statusValue = [] \<or> getAccountStatus a = statusValue))"
    by (rule ext) (rule keep_iff)
  then show ?thesis by (simp add: filtered_def Let_def)
qed

text \<open>
  The specification's example: of four accounts with providers \<^verbatim>\<open>codex\<close> and \<^verbatim>\<open>claude\<close>
  and states active and cooldown, provider \<^verbatim>\<open>cod\<close> and status \<^verbatim>\<open>active\<close> keep the one
  active \<^verbatim>\<open>codex\<close> account. And in mixed case: the filter \<^verbatim>\<open>cOd\<close> finds \<^verbatim>\<open>Codex\<close> and
  \<^verbatim>\<open>gemini-CODE\<close> but not \<^verbatim>\<open>CLAUDE\<close>, and with status \<^verbatim>\<open>active\<close> keeps \<^verbatim>\<open>Codex\<close> alone,
  the other being in cooldown.
\<close>

theorem C9_witness:
  "map getAccountStatus sampleAccounts = [''active'', ''cooldown'', ''active'', ''cooldown''] \<and>
   map provider sampleAccounts = [''codex'', ''codex'', ''claude'', ''claude''] \<and>
   filtered ''cod'' ''active'' sampleAccounts =
     [wire noLastRefresh (sampleAuth ''codex'' ''active'' False False False 0 None)] \<and>
   filtered ''cOd'' [] sampleMixedCase =
     [wire noLastRefresh (sampleAuth ''Codex'' ''active'' False False False 0 None),
      wire noLastRefresh (sampleAuth ''gemini-CODE'' ''active'' False False True 0 None)] \<and>
   filtered ''cOd'' ''active'' sampleMixedCase =
     [wire noLastRefresh (sampleAuth ''Codex'' ''active'' False False False 0 None)] \<and>
   toLowerCase ''Gemini-CLI'' = ''gemini-cli''"
proof -
  have p: "spec_ciSubstring ''cod'' ''codex''" "\<not> spec_ciSubstring ''cod'' ''claude''"
    "spec_ciSubstring ''cOd'' ''Codex''" "\<not> spec_ciSubstring ''cOd'' ''CLAUDE''"
    "spec_ciSubstring ''cOd'' ''gemini-CODE''"
    unfolding spec_ciSubstring_includes by code_simp+
  have l: "toLowerCase ''Gemini-CLI'' = ''gemini-cli''"
    by code_simp
  show ?thesis
    using C9_filter_conjunction [of "''cod''" "''active''" sampleAccounts]
      C9_filter_conjunction [of "''cOd''" "[]" sampleMixedCase]
      C9_filter_conjunction [of "''cOd''" "''active''" sampleMixedCase]
    by (simp add: sampleAccounts_def sampleMixedCase_def getAccountStatus_wire wire_provider
          sampleAuth_fields p l)
qed

end
